theory Spec2Isabelle
  imports Complex_Main "HOL-Library.Word"
begin

unbundle bit_operations_syntax

section \<open>Python strings and slices\<close>

text \<open>
  Texts are modelled as \<^typ>\<open>string\<close>, one \<^typ>\<open>char\<close> per Python character, for
  texts whose characters have codes below 256. On one character of that range,
  \<open>py_isspace\<close> is \<^verbatim>\<open>str.isspace\<close>, which is also the regular-expression class \<^verbatim>\<open>\s\<close>
  (the codes 9 to 13, 28 to 32, 133 and 160), \<open>py_isdigit\<close> is the class \<^verbatim>\<open>\d\<close>, and
  \<open>char_isupper\<close>, \<open>char_islower\<close> and \<open>char_lower\<close> are \<^verbatim>\<open>str.isupper\<close>, \<^verbatim>\<open>str.islower\<close>
  and \<^verbatim>\<open>str.lower\<close>, with the cased letters of Latin-1 besides the ASCII ones.
  \<^verbatim>\<open>str.upper\<close> leaves the range on three characters (181 becomes 924, 223 becomes two
  letters S, 255 becomes 376), so \<open>upper\<close> gives a list of character codes.
\<close>

definition py_isspace :: "char \<Rightarrow> bool" where
  "py_isspace c =
     (let n = of_char c :: nat
      in (9 \<le> n \<and> n \<le> 13) \<or> (28 \<le> n \<and> n \<le> 32) \<or> n = 133 \<or> n = 160)"

definition strip_py :: "string \<Rightarrow> string" where
  \<comment> \<open>\<^verbatim>\<open>s.strip()\<close>\<close>
  "strip_py s = rev (dropWhile py_isspace (rev (dropWhile py_isspace s)))"

definition py_index :: "nat \<Rightarrow> int \<Rightarrow> nat" where
  \<comment> \<open>a slice bound, clamped into \<open>0..n\<close>; a negative bound counts from the end\<close>
  "py_index n i = (if i < 0 then nat (max 0 (int n + i)) else min n (nat i))"

definition py_slice :: "'a list \<Rightarrow> int \<Rightarrow> int \<Rightarrow> 'a list" where
  \<comment> \<open>\<^verbatim>\<open>xs[i:j]\<close>\<close>
  "py_slice xs i j =
     (let a = py_index (length xs) i; b = py_index (length xs) j
      in take (b - a) (drop a xs))"

primrec rfind :: "'a list \<Rightarrow> 'a \<Rightarrow> int" where
  \<comment> \<open>\<^verbatim>\<open>s.rfind(c)\<close> for a one-character \<open>c\<close>: the last index of \<open>c\<close>, or \<open>-1\<close>\<close>
  "rfind [] c = - 1"
| "rfind (x # xs) c =
     (let r = rfind xs c in if 0 \<le> r then r + 1 else if x = c then 0 else - 1)"

definition py_isdigit :: "char \<Rightarrow> bool" where
  "py_isdigit c = (let n = of_char c :: nat in 48 \<le> n \<and> n \<le> 57)"

definition ascii_letter :: "char \<Rightarrow> bool" where
  "ascii_letter c =
     (let n = of_char c :: nat in (65 \<le> n \<and> n \<le> 90) \<or> (97 \<le> n \<and> n \<le> 122))"

definition char_isupper :: "char \<Rightarrow> bool" where
  "char_isupper c =
     (let n = of_char c :: nat
      in (65 \<le> n \<and> n \<le> 90) \<or> (192 \<le> n \<and> n \<le> 214) \<or> (216 \<le> n \<and> n \<le> 222))"

definition char_islower :: "char \<Rightarrow> bool" where
  "char_islower c =
     (let n = of_char c :: nat
      in (97 \<le> n \<and> n \<le> 122) \<or> n = 170 \<or> n = 181 \<or> n = 186 \<or>
         (223 \<le> n \<and> n \<le> 246) \<or> (248 \<le> n \<and> n \<le> 255))"

definition char_lower :: "char \<Rightarrow> char" where
  "char_lower c = (if char_isupper c then char_of (of_char c + 32 :: nat) else c)"

definition upper_codes :: "char \<Rightarrow> nat list" where
  "upper_codes c =
     (let n = of_char c :: nat
      in if n = 181 then [924]
         else if n = 223 then [83, 83]
         else if n = 255 then [376]
         else if char_islower c \<and> n \<noteq> 170 \<and> n \<noteq> 186 then [n - 32]
         else [n])"

definition codes :: "string \<Rightarrow> nat list" where
  "codes s = map of_char s"

definition lower :: "string \<Rightarrow> string" where
  \<comment> \<open>\<^verbatim>\<open>s.lower()\<close>\<close>
  "lower s = map char_lower s"

definition upper :: "string \<Rightarrow> nat list" where
  \<comment> \<open>\<^verbatim>\<open>s.upper()\<close>, as character codes\<close>
  "upper s = concat (map upper_codes s)"

definition isupper :: "string \<Rightarrow> bool" where
  \<comment> \<open>\<^verbatim>\<open>s.isupper()\<close>: some uppercase character, and no lowercase one\<close>
  "isupper s = (list_ex char_isupper s \<and> \<not> list_ex char_islower s)"

definition startswith :: "'a list \<Rightarrow> 'a list \<Rightarrow> bool" where
  \<comment> \<open>\<^verbatim>\<open>s.startswith(p)\<close>\<close>
  "startswith s p = (take (length p) s = p)"

primrec contains :: "'a list \<Rightarrow> 'a list \<Rightarrow> bool" where
  \<comment> \<open>\<^verbatim>\<open>p in s\<close>\<close>
  "contains p [] = (p = [])"
| "contains p (c # cs) = (startswith (c # cs) p \<or> contains p cs)"

definition replace_char :: "char \<Rightarrow> char \<Rightarrow> string \<Rightarrow> string" where
  \<comment> \<open>\<^verbatim>\<open>s.replace(a, b)\<close> for one-character \<open>a\<close> and \<open>b\<close>\<close>
  "replace_char a b s = map (\<lambda>c. if c = a then b else c) s"

fun py_join :: "string \<Rightarrow> string list \<Rightarrow> string" where
  \<comment> \<open>\<^verbatim>\<open>sep.join(xs)\<close>\<close>
  "py_join sep [] = []"
| "py_join sep [x] = x"
| "py_join sep (x # y # ys) = x @ sep @ py_join sep (y # ys)"
section \<open>Chunker: \<^verbatim>\<open>PDFService.chunk_text\<close>\<close>

text \<open>
  One pass of the body of the \<^verbatim>\<open>while\<close> loop up to the append: the window cut at
  \<open>start\<close>, moved back to the last period or line break when that lies past the middle
  of the window, together with the position \<open>end\<close> where the window stops. The test
  \<^verbatim>\<open>break_point > chunk_size * 0.5\<close> on integers is \<open>2 * break_point > chunk_size\<close>.
\<close>

definition chunk_window :: "string \<Rightarrow> int \<Rightarrow> int \<Rightarrow> string \<times> int" where
  "chunk_window text chunk_size start =
     (let end = start + chunk_size;
          chunk = py_slice text start end
      in if end < int (length text) then
           (let last_period = rfind chunk (CHR ''.'');
                last_newline = rfind chunk (CHR 0x0A);
                break_point = max last_period last_newline
            in if 2 * break_point > chunk_size
               then (py_slice chunk 0 (break_point + 1), start + break_point + 1)
               else (chunk, end))
         else (chunk, end))"

text \<open>
  The \<^verbatim>\<open>while start < len(text)\<close> loop. It has no bound on its number of passes, so the
  model is a partial function: \<open>None\<close> is a call that never returns.
\<close>

partial_function (option) chunk_loop ::
  "string \<Rightarrow> int \<Rightarrow> int \<Rightarrow> string list \<Rightarrow> int \<Rightarrow> string list option" where
  "chunk_loop text chunk_size overlap chunks start =
     (if start < int (length text) then
        chunk_loop text chunk_size overlap
          (chunks @ [strip_py (fst (chunk_window text chunk_size start))])
          (snd (chunk_window text chunk_size start) - overlap)
      else Some chunks)"

declare chunk_loop.simps [code]

definition chunk_text :: "string \<Rightarrow> int \<Rightarrow> int \<Rightarrow> string list option" where
  "chunk_text text chunk_size overlap =
     (if int (length text) \<le> chunk_size then Some [text]
      else chunk_loop text chunk_size overlap [] 0)"

text \<open>
  Rebuilding a text from windows that overlap by \<open>overlap\<close> characters: the first
  window whole, every later one without its first \<open>overlap\<close> characters.
\<close>

definition remove_overlaps :: "nat \<Rightarrow> string list \<Rightarrow> string" where
  "remove_overlaps overlap ws =
     (case ws of [] \<Rightarrow> [] | w # rest \<Rightarrow> w @ concat (map (drop overlap) rest))"


text \<open>
  Windows given by their bounds: \<open>window text (s, e)\<close> is the slice \<^verbatim>\<open>text[s:e]\<close>. A list of
  bounds is chained after the end \<open>e\<close> of a window before it when every window starts
  \<open>overlap\<close> characters before the end of the one before, ends to the right of that end,
  and spans at most \<open>chunk_size\<close> characters.
\<close>

definition window :: "string \<Rightarrow> nat \<times> nat \<Rightarrow> string" where
  "window text b = take (snd b - fst b) (drop (fst b) text)"

fun chained :: "nat \<Rightarrow> nat \<Rightarrow> nat \<Rightarrow> (nat \<times> nat) list \<Rightarrow> bool" where
  "chained chunk_size overlap e [] = True"
| "chained chunk_size overlap e ((s, e') # bs) =
     (s + overlap = e \<and> e < e' \<and> e' \<le> s + chunk_size \<and>
      chained chunk_size overlap e' bs)"
section \<open>Errors\<close>

text \<open>
  An exception is a value: a function that can raise returns \<open>py_error + 'a\<close>, with
  \<open>Inl\<close> for the exception raised. \<open>OtherError\<close> stands for any exception the code does not
  tell apart, with its message.
\<close>

datatype py_error = ImportError | ValueError | AttributeError | OtherError string

fun collect :: "('e + 'a) list \<Rightarrow> 'e + 'a list" where
  "collect [] = Inr []"
| "collect (x # xs) =
     (case x of
        Inl e \<Rightarrow> Inl e
      | Inr v \<Rightarrow> (case collect xs of Inl e \<Rightarrow> Inl e | Inr vs \<Rightarrow> Inr (v # vs)))"

section \<open>Embedder: \<^verbatim>\<open>PineconeService.generate_embedding\<close>\<close>

text \<open>
  \<^verbatim>\<open>hashlib.sha256\<close> is a library function: the model takes it as a parameter
  \<open>sha256\<close>, from the bytes of the message to the bytes of the digest. What the
  library guarantees, a digest of 32 bytes, is a hypothesis where it is used.
\<close>

subsection \<open>Encoding and hexadecimal digits\<close>

text \<open>
  \<^verbatim>\<open>text.encode()\<close> is UTF-8: one byte for a code below 128, two bytes for a code from
  128 to 255. \<^verbatim>\<open>hexdigest()\<close> writes every byte of the digest as two lowercase
  hexadecimal digits. \<^verbatim>\<open>int(s, 16)\<close> is modelled on strings of hexadecimal digits,
  the only ones the fallback passes to it; on any other string the model raises
  \<^verbatim>\<open>ValueError\<close>.
\<close>

definition utf8_encode :: "string \<Rightarrow> 8 word list" where
  "utf8_encode s =
     concat (map (\<lambda>c. let n = of_char c :: nat
                      in if n < 128 then [word_of_nat n]
                         else [word_of_nat (192 + n div 64), word_of_nat (128 + n mod 64)]) s)"

definition hex_digit :: "nat \<Rightarrow> char" where
  "hex_digit n = (if n < 10 then char_of (48 + n) else char_of (87 + n))"

definition hex_byte :: "8 word \<Rightarrow> string" where
  "hex_byte b = [hex_digit (unat b div 16), hex_digit (unat b mod 16)]"

definition hexdigest :: "8 word list \<Rightarrow> string" where
  "hexdigest d = concat (map hex_byte d)"


definition hex_value :: "char \<Rightarrow> nat option" where
  "hex_value c =
     (let n = of_char c :: nat
      in if 48 \<le> n \<and> n \<le> 57 then Some (n - 48)
         else if 97 \<le> n \<and> n \<le> 102 then Some (n - 87)
         else if 65 \<le> n \<and> n \<le> 70 then Some (n - 55)
         else None)"

definition int16 :: "string \<Rightarrow> py_error + int" where
  "int16 s =
     (if s = [] \<or> list_ex (\<lambda>c. hex_value c = None) s then Inl ValueError
      else Inr (foldl (\<lambda>acc c. 16 * acc + (case hex_value c of Some v \<Rightarrow> int v | None \<Rightarrow> 0)) 0 s))"

subsection \<open>The fallback path\<close>

text \<open>
  The body of the \<^verbatim>\<open>except ImportError\<close> branch, from the hexadecimal digest on:
  \<^verbatim>\<open>range(0, min(1024*2, len(hash_hex)), 2)\<close> has \<open>(stop + 1) div 2\<close> elements, the
  \<open>k\<close>-th being \<open>2 * k\<close>; each pair of digits is read as an integer and divided by
  \<^verbatim>\<open>255.0\<close>; the list is filled up with \<^verbatim>\<open>0.0\<close> to 1024 entries and cut at 1024.
  The quotient by \<^verbatim>\<open>255.0\<close> is modelled as the exact quotient in the reals.
\<close>

definition hex_embedding :: "string \<Rightarrow> py_error + real list" where
  "hex_embedding hash_hex =
     (let stop = min (1024 * 2) (length hash_hex)
      in case collect (map (\<lambda>k. int16 (py_slice hash_hex (2 * int k) (2 * int k + 2)))
                         [0 ..< (stop + 1) div 2]) of
           Inl e \<Rightarrow> Inl e
         | Inr vals \<Rightarrow>
             (let embedding = map (\<lambda>v. real_of_int v / 255) vals;
                  embedding' = (if length embedding < 1024
                                then embedding @ replicate (1024 - length embedding) 0
                                else embedding)
              in Inr (py_slice embedding' 0 1024)))"

definition fallback_embedding ::
  "(8 word list \<Rightarrow> 8 word list) \<Rightarrow> string \<Rightarrow> py_error + real list" where
  "fallback_embedding sha256 text = hex_embedding (hexdigest (sha256 (utf8_encode text)))"

text \<open>
  \<^verbatim>\<open>generate_embedding\<close>: \<open>encode\<close> stands for the \<^verbatim>\<open>try\<close> block (importing
  \<^verbatim>\<open>sentence_transformers\<close>, loading the model, encoding the text) and gives the vector
  or the exception raised there. An \<^verbatim>\<open>ImportError\<close> leads to the fallback, any other
  exception is raised again.
\<close>

definition generate_embedding ::
  "(8 word list \<Rightarrow> 8 word list) \<Rightarrow> (string \<Rightarrow> py_error + real list) \<Rightarrow> string \<Rightarrow>
     py_error + real list" where
  "generate_embedding sha256 encode text =
     (case encode text of
        Inr embedding \<Rightarrow> Inr embedding
      | Inl ImportError \<Rightarrow> fallback_embedding sha256 text
      | Inl e \<Rightarrow> Inl e)"

text \<open>
  The dimension with which \<^verbatim>\<open>_initialize_index\<close> creates the vector index (and to which
  it recreates an index of another dimension).
\<close>

definition index_dimension :: nat where
  "index_dimension = 384"


text \<open>
  The vector of a digest: every byte divided by 255, then zeros up to 1024 entries.
\<close>

definition digest_vector :: "8 word list \<Rightarrow> real list" where
  "digest_vector d = map (\<lambda>b. real_of_int (uint b) / 255) d @ replicate (1024 - length d) 0"

text \<open>
  The SHA-256 digest of \<^verbatim>\<open>b"headache and fever"\<close>, the text embedded by the
  repository's own test of the embedding dimension.
\<close>

definition headache_digest :: "8 word list" where
  "headache_digest =
     [0xc5, 0x6e, 0xdc, 0xfe, 0x7e, 0xdb, 0x73, 0x1a, 0x19, 0x7d, 0x77, 0xcb, 0x75, 0xf6, 0xd0, 0x20,
      0x40, 0x1f, 0x7a, 0x2a, 0xd8, 0x56, 0xbd, 0xbb, 0x04, 0x8d, 0x42, 0xda, 0x5b, 0x66, 0xe9, 0x13]"

section \<open>Retriever: \<^verbatim>\<open>search_similar_symptoms\<close> and \<^verbatim>\<open>search_pdf_content\<close>\<close>

text \<open>
  A match of the index carries its metadata (absent, or a dictionary from keys to values)
  and a score. A metadata value is a string or something else; \<^verbatim>\<open>.split(",")\<close> on
  something else raises \<^verbatim>\<open>AttributeError\<close>. The index handle \<^verbatim>\<open>self.index\<close> is
  \<open>None\<close> when the index could not be initialised; otherwise its \<^verbatim>\<open>query\<close> gives the
  matches or raises. Both searches return a plain list: they have no way to raise.
\<close>

datatype meta_value = MStr string | MOther

type_synonym metadata = "(string \<times> meta_value) list"

record match =
  metadata :: "metadata option"
  score :: real

type_synonym index = "real list \<Rightarrow> int \<Rightarrow> py_error + match list"

definition dict_get :: "('k \<times> 'v) list \<Rightarrow> 'k \<Rightarrow> 'v \<Rightarrow> 'v" where
  \<comment> \<open>\<^verbatim>\<open>m.get(k, dflt)\<close>\<close>
  "dict_get m k dflt = (case map_of m k of Some v \<Rightarrow> v | None \<Rightarrow> dflt)"

fun py_split :: "char \<Rightarrow> string \<Rightarrow> string list" where
  "py_split sep [] = [[]]"
| "py_split sep (c # cs) =
     (if c = sep then [] # py_split sep cs
      else (case py_split sep cs of w # ws \<Rightarrow> (c # w) # ws | [] \<Rightarrow> [[c]]))"

definition split_value :: "meta_value \<Rightarrow> py_error + string list" where
  "split_value v = (case v of MStr s \<Rightarrow> Inr (py_split (CHR '','') s) | MOther \<Rightarrow> Inl AttributeError)"

record symptom_context =
  sc_symptoms :: meta_value
  sc_conditions :: "string list"
  sc_recommendations :: "string list"
  sc_score :: real

record pdf_context =
  pc_text :: meta_value
  pc_pdf_name :: meta_value
  pc_score :: real

definition symptom_context_of :: "match \<Rightarrow> py_error + symptom_context list" where
  "symptom_context_of m =
     (case metadata m of
        None \<Rightarrow> Inr []
      | Some md \<Rightarrow>
          if md = [] then Inr []
          else (case split_value (dict_get md ''conditions'' (MStr [])) of
                  Inl e \<Rightarrow> Inl e
                | Inr cs \<Rightarrow>
                    (case split_value (dict_get md ''recommendations'' (MStr [])) of
                       Inl e \<Rightarrow> Inl e
                     | Inr rs \<Rightarrow>
                         Inr [\<lparr>sc_symptoms = dict_get md ''symptoms'' (MStr []),
                               sc_conditions = cs, sc_recommendations = rs,
                               sc_score = score m\<rparr>])))"

definition search_similar_symptoms ::
  "index option \<Rightarrow> real list \<Rightarrow> int \<Rightarrow> symptom_context list" where
  "search_similar_symptoms index embedding top_k =
     (case index of
        None \<Rightarrow> []
      | Some query \<Rightarrow>
          (case query embedding top_k of
             Inl e \<Rightarrow> []
           | Inr matches \<Rightarrow>
               (case collect (map symptom_context_of matches) of
                  Inl e \<Rightarrow> []
                | Inr contexts \<Rightarrow> concat contexts)))"

definition pdf_context_of :: "match \<Rightarrow> pdf_context list" where
  "pdf_context_of m =
     (case metadata m of
        None \<Rightarrow> []
      | Some md \<Rightarrow>
          if md \<noteq> [] \<and> map_of md ''type'' = Some (MStr ''pdf'')
          then [\<lparr>pc_text = dict_get md ''text'' (MStr []),
                 pc_pdf_name = dict_get md ''pdf_name'' (MStr []),
                 pc_score = score m\<rparr>]
          else [])"

definition search_pdf_content ::
  "index option \<Rightarrow> real list \<Rightarrow> int \<Rightarrow> pdf_context list" where
  "search_pdf_content index query_embedding top_k =
     (case index of
        None \<Rightarrow> []
      | Some query \<Rightarrow>
          (case query query_embedding top_k of
             Inl e \<Rightarrow> []
           | Inr matches \<Rightarrow> concat (map pdf_context_of matches)))"

section \<open>Regular expressions\<close>

text \<open>
  The patterns of \<^verbatim>\<open>llm_service.py\<close> use literals, character classes, grouping, alternation,
  the greedy repetitions \<^verbatim>\<open>*\<close>, \<^verbatim>\<open>+\<close>, \<^verbatim>\<open>?\<close> and at most one capturing group. A
  backtracking matcher tries the alternatives in a fixed order and takes the first that
  succeeds; \<open>rx_match r s\<close> lists, in that order, every way \<open>r\<close> matches a prefix of \<open>s\<close>,
  each as the rest of \<open>s\<close> after the match and the text of the capturing group, if it took
  part. The head of the list is the match that \<^verbatim>\<open>re.match\<close> reports. A repetition does not
  iterate on an empty match of its body.
\<close>

datatype rx = Eps | Cls "char \<Rightarrow> bool" | Seq rx rx | Alt rx rx | Star rx | Grp rx

definition later_group :: "string option \<Rightarrow> string option \<Rightarrow> string option" where
  "later_group g1 g2 = (case g2 of None \<Rightarrow> g1 | Some g \<Rightarrow> Some g)"

function rx_match :: "rx \<Rightarrow> string \<Rightarrow> (string \<times> string option) list" where
  "rx_match Eps s = [(s, None)]"
| "rx_match (Cls p) s = (case s of [] \<Rightarrow> [] | c # cs \<Rightarrow> if p c then [(cs, None)] else [])"
| "rx_match (Seq r1 r2) s =
     concat (map (\<lambda>(s1, g1). map (\<lambda>(s2, g2). (s2, later_group g1 g2)) (rx_match r2 s1))
                 (rx_match r1 s))"
| "rx_match (Alt r1 r2) s = rx_match r1 s @ rx_match r2 s"
| "rx_match (Star r) s =
     concat (map (\<lambda>(s1, g1). if length s1 < length s
                                then map (\<lambda>(s2, g2). (s2, later_group g1 g2)) (rx_match (Star r) s1)
                                else [])
                 (rx_match r s)) @ [(s, None)]"
| "rx_match (Grp r) s =
     map (\<lambda>(s1, g). (s1, Some (take (length s - length s1) s))) (rx_match r s)"
  by pat_completeness auto
termination
  by (relation "measures [\<lambda>(r, s). size r, \<lambda>(r, s). length s]") auto

definition rx_matches :: "rx \<Rightarrow> string \<Rightarrow> bool" where
  \<comment> \<open>\<^verbatim>\<open>re.match(r, s)\<close> is not \<open>None\<close>\<close>
  "rx_matches r s = (rx_match r s \<noteq> [])"

definition rx_sub_start :: "rx \<Rightarrow> string \<Rightarrow> string" where
  \<comment> \<open>\<^verbatim>\<open>re.sub(r, '', s)\<close> for a pattern anchored by \<^verbatim>\<open>^\<close>: only a match at the start is removed\<close>
  "rx_sub_start r s = (case rx_match r s of [] \<Rightarrow> s | (rest, g) # ms \<Rightarrow> rest)"

fun rx_search :: "rx \<Rightarrow> string \<Rightarrow> string option" where
  \<comment> \<open>\<^verbatim>\<open>re.search(r, s)\<close>: the text of the leftmost match, \<^verbatim>\<open>group(0)\<close>\<close>
  "rx_search r s =
     (case rx_match r s of
        (rest, g) # ms \<Rightarrow> Some (take (length s - length rest) s)
      | [] \<Rightarrow> (case s of [] \<Rightarrow> None | c # cs \<Rightarrow> rx_search r cs))"

function rx_findall :: "rx \<Rightarrow> string \<Rightarrow> string list" where
  \<comment> \<open>\<^verbatim>\<open>re.findall(r, s)\<close> for a pattern with one group: the group's text at each match,
      scanning on from the end of the match\<close>
  "rx_findall r s =
     (case rx_match r s of
        (rest, g) # ms \<Rightarrow>
          (case g of None \<Rightarrow> [] | Some m \<Rightarrow> m) #
          (if length rest < length s then rx_findall r rest
           else (case s of [] \<Rightarrow> [] | c # cs \<Rightarrow> rx_findall r cs))
      | [] \<Rightarrow> (case s of [] \<Rightarrow> [] | c # cs \<Rightarrow> rx_findall r cs))"
  by pat_completeness auto
termination
  by (relation "measure (\<lambda>(r, s). length s)") auto

declare rx_search.simps [simp del]

declare rx_findall.simps [simp del]

definition rx_char :: "char \<Rightarrow> rx" where
  "rx_char c = Cls (\<lambda>x. x = c)"

definition rx_ichar :: "char \<Rightarrow> rx" where
  \<comment> \<open>a literal character under \<^verbatim>\<open>re.IGNORECASE\<close>\<close>
  "rx_ichar c = Cls (\<lambda>x. char_lower x = char_lower c)"

definition seqs :: "rx list \<Rightarrow> rx" where
  "seqs rs = foldr Seq rs Eps"

fun alts :: "rx list \<Rightarrow> rx" where
  "alts [] = Cls (\<lambda>x. False)"
| "alts [r] = r"
| "alts (r # rs) = Alt r (alts rs)"

definition rx_lit :: "string \<Rightarrow> rx" where
  "rx_lit s = seqs (map rx_char s)"

definition rx_ilit :: "string \<Rightarrow> rx" where
  "rx_ilit s = seqs (map rx_ichar s)"

definition rx_plus :: "rx \<Rightarrow> rx" where
  "rx_plus r = Seq r (Star r)"

definition rx_opt :: "rx \<Rightarrow> rx" where
  "rx_opt r = Alt r Eps"
section \<open>Response parser: \<^verbatim>\<open>_parse_text_response\<close>\<close>

text \<open>
  The methods \<^verbatim>\<open>_parse_text_response\<close>, \<^verbatim>\<open>_extract_conditions_from_text\<close>,
  \<^verbatim>\<open>_extract_recommendations_from_text\<close>, \<^verbatim>\<open>_analyze_symptoms_node\<close> and
  \<^verbatim>\<open>_format_response_node\<close> are modelled under their names without the leading underscore.
  The decoder \<^verbatim>\<open>json.loads\<close> is a parameter \<open>loads\<close>, giving the decoded value or the
  exception it raises; an object is decoded to a dictionary, here an association list.
  The constructor \<^verbatim>\<open>SymptomAnalysis(...)\<close> validates its fields, two lists of strings and
  a string, and raises otherwise.
\<close>

datatype json =
  JNull | JBool bool | JNumber real | JString string | JArray "json list"
| JObject "(string \<times> json) list"

type_synonym loads = "string \<Rightarrow> py_error + json"

record SymptomAnalysis =
  conditions :: "string list"
  recommendations :: "string list"
  severity_assessment :: string

fun as_str :: "json \<Rightarrow> string option" where
  "as_str (JString s) = Some s"
| "as_str v = None"

fun as_str_list :: "json \<Rightarrow> string list option" where
  "as_str_list (JArray vs) = those (map as_str vs)"
| "as_str_list v = None"

definition SymptomAnalysis_of :: "json \<Rightarrow> SymptomAnalysis option" where
  \<comment> \<open>\<^verbatim>\<open>SymptomAnalysis(conditions=data.get("conditions", []), ...)\<close>; \<open>None\<close> when \<^verbatim>\<open>data.get\<close>
      or the validation raises\<close>
  "SymptomAnalysis_of data =
     (case data of
        JObject kvs \<Rightarrow>
          (case as_str_list (dict_get kvs ''conditions'' (JArray [])) of
             None \<Rightarrow> None
           | Some cs \<Rightarrow>
               (case as_str_list (dict_get kvs ''recommendations'' (JArray [])) of
                  None \<Rightarrow> None
                | Some rs \<Rightarrow>
                    (case as_str (dict_get kvs ''severity_assessment'' (JString ''moderate'')) of
                       None \<Rightarrow> None
                     | Some sv \<Rightarrow>
                         Some \<lparr>conditions = cs, recommendations = rs,
                               severity_assessment = sv\<rparr>)))
      | _ \<Rightarrow> None)"

definition not_brace :: rx where
  \<comment> \<open>\<^verbatim>\<open>[^{}]\<close>\<close>
  "not_brace = Cls (\<lambda>c. c \<noteq> CHR ''{'' \<and> c \<noteq> CHR ''}'')"

definition nested_objects :: rx where
  \<comment> \<open>\<^verbatim>\<open>(?:\{[^{}]*\}[^{}]*)*\<close>\<close>
  "nested_objects =
     Star (seqs [rx_char (CHR ''{''), Star not_brace, rx_char (CHR ''}''), Star not_brace])"

definition json_pattern :: rx where
  \<comment> \<open>\<^verbatim>\<open>\{[^{}]*(?:\{[^{}]*\}[^{}]*)*"conditions"[^{}]*(?:\{[^{}]*\}[^{}]*)*\}\<close>\<close>
  \<open>json_pattern =
     seqs [rx_char (CHR ''{''), Star not_brace, nested_objects, rx_lit ''"conditions"'',
           Star not_brace, nested_objects, rx_char (CHR ''}'')]\<close>

definition json_stage :: "loads \<Rightarrow> string \<Rightarrow> SymptomAnalysis option" where
  \<comment> \<open>the first \<^verbatim>\<open>try\<close> block: \<open>Some\<close> is its early return; \<open>None\<close> when nothing matches or
      an exception is caught\<close>
  "json_stage loads response_text =
     (case rx_search json_pattern response_text of
        None \<Rightarrow> None
      | Some json_str \<Rightarrow>
          (case loads (replace_char (CHR 0x27) (CHR 0x22) json_str) of
             Inl e \<Rightarrow> None
           | Inr data \<Rightarrow> SymptomAnalysis_of data))"

datatype section_name = Conditions | Recommendations

record parse_state =
  ps_conditions :: "string list"
  ps_recommendations :: "string list"
  ps_severity :: string
  current_section :: "section_name option"

definition numbered_pattern :: rx where
  \<comment> \<open>\<^verbatim>\<open>^\d+[\.\)]\s+\<close>\<close>
  "numbered_pattern =
     seqs [rx_plus (Cls py_isdigit), Cls (\<lambda>c. c = CHR ''.'' \<or> c = CHR '')''),
           rx_plus (Cls py_isspace)]"

definition bullet_pattern :: rx where
  \<comment> \<open>\<^verbatim>\<open>^[-*]\s+\<close>; the source's class also has the bullet U+2022, outside the modelled range\<close>
  "bullet_pattern =
     seqs [Cls (\<lambda>c. c = CHR ''-'' \<or> c = CHR ''*''), rx_plus (Cls py_isspace)]"

definition add_item :: "string \<Rightarrow> parse_state \<Rightarrow> parse_state" where
  "add_item content st =
     (if current_section st = Some Conditions \<and> length (ps_conditions st) < 5
      then st\<lparr>ps_conditions := ps_conditions st @ [content]\<rparr>
      else if current_section st = Some Recommendations \<and> length (ps_recommendations st) < 5
      then st\<lparr>ps_recommendations := ps_recommendations st @ [content]\<rparr>
      else st)"

definition conditions_header :: "string \<Rightarrow> bool" where
  \<comment> \<open>\<^verbatim>\<open>'condition' in line_lower and (':' in line or line_lower.startswith('condition'))\<close>\<close>
  "conditions_header line =
     (contains ''condition'' (lower line) \<and>
      (contains '':'' line \<or> startswith (lower line) ''condition''))"

definition recommendations_header :: "string \<Rightarrow> bool" where
  \<comment> \<open>\<^verbatim>\<open>('recommendation' in line_lower or 'next step' in line_lower) and
      (':' in line or line_lower.startswith('recommendation'))\<close>\<close>
  "recommendations_header line =
     ((contains ''recommendation'' (lower line) \<or> contains ''next step'' (lower line)) \<and>
      (contains '':'' line \<or> startswith (lower line) ''recommendation''))"

definition parse_line :: "parse_state \<Rightarrow> string \<Rightarrow> parse_state" where
  \<comment> \<open>one pass of the loop over the lines\<close>
  "parse_line st raw =
     (let line = strip_py raw; line_lower = lower line in
      if line = [] then st
      else if conditions_header line then st\<lparr>current_section := Some Conditions\<rparr>
      else if recommendations_header line then st\<lparr>current_section := Some Recommendations\<rparr>
      else if contains ''severity'' line_lower
      then (if contains ''mild'' line_lower then st\<lparr>ps_severity := ''mild''\<rparr>
            else if contains ''severe'' line_lower then st\<lparr>ps_severity := ''severe''\<rparr>
            else if contains ''moderate'' line_lower then st\<lparr>ps_severity := ''moderate''\<rparr>
            else st)
      else if rx_matches numbered_pattern line
      then (let content = strip_py (rx_sub_start numbered_pattern line)
            in if content \<noteq> [] \<and> length content > 5 then add_item content st else st)
      else if rx_matches bullet_pattern line
      then (let content = strip_py (rx_sub_start bullet_pattern line)
            in if content \<noteq> [] \<and> length content > 5 then add_item content st else st)
      else if current_section st \<noteq> None \<and> length line > 10 \<and> \<not> isupper line
      then (if current_section st = Some Conditions \<and> length (ps_conditions st) < 5 \<and>
               char_isupper (hd line)
            then st\<lparr>ps_conditions := ps_conditions st @ [line]\<rparr>
            else if current_section st = Some Recommendations \<and>
                    length (ps_recommendations st) < 5 \<and> char_isupper (hd line)
            then st\<lparr>ps_recommendations := ps_recommendations st @ [line]\<rparr>
            else st)
      else st)"

definition parse_lines :: "string \<Rightarrow> parse_state" where
  "parse_lines response_text =
     foldl parse_line
       \<lparr>ps_conditions = [], ps_recommendations = [], ps_severity = ''moderate'',
        current_section = None\<rparr>
       (py_split (CHR 0x0A) response_text)"

definition not_stop :: rx where
  \<comment> \<open>\<^verbatim>\<open>[^\.\n]\<close>\<close>
  "not_stop = Cls (\<lambda>c. c \<noteq> CHR ''.'' \<and> c \<noteq> CHR 0x0A)"

definition colon_or_space :: rx where
  \<comment> \<open>\<^verbatim>\<open>[:\s]\<close>\<close>
  "colon_or_space = Cls (\<lambda>c. c = CHR '':'' \<or> py_isspace c)"

definition condition_patterns :: "rx list" where
  \<comment> \<open>\<^verbatim>\<open>(?:possible|likely|probable|potential)\s+(?:condition|diagnosis|disease|illness)[s]?[:\s]+([^\.\n]+)\<close>
      and \<^verbatim>\<open>(?:could be|might be|may be)\s+([A-Z][^\.\n]+)\<close>, under \<^verbatim>\<open>re.IGNORECASE\<close>\<close>
  "condition_patterns =
     [seqs [alts (map rx_ilit [''possible'', ''likely'', ''probable'', ''potential'']),
            rx_plus (Cls py_isspace),
            alts (map rx_ilit [''condition'', ''diagnosis'', ''disease'', ''illness'']),
            rx_opt (rx_ichar (CHR ''s'')), rx_plus colon_or_space, Grp (rx_plus not_stop)],
      seqs [alts (map rx_ilit [''could be'', ''might be'', ''may be'']),
            rx_plus (Cls py_isspace),
            Grp (Seq (Cls ascii_letter) (rx_plus not_stop))]]"

definition recommendation_patterns :: "rx list" where
  \<comment> \<open>\<^verbatim>\<open>(?:recommend|suggest|advise|should|next step)[s]?[:\s]+([^\.\n]+)\<close> and
      \<^verbatim>\<open>(?:see|consult|visit|contact)\s+([^\.\n]+)\<close>, under \<^verbatim>\<open>re.IGNORECASE\<close>\<close>
  "recommendation_patterns =
     [seqs [alts (map rx_ilit [''recommend'', ''suggest'', ''advise'', ''should'', ''next step'']),
            rx_opt (rx_ichar (CHR ''s'')), rx_plus colon_or_space, Grp (rx_plus not_stop)],
      seqs [alts (map rx_ilit [''see'', ''consult'', ''visit'', ''contact'']),
            rx_plus (Cls py_isspace), Grp (rx_plus not_stop)]]"

definition extract_matches :: "rx list \<Rightarrow> string \<Rightarrow> string list" where
  \<comment> \<open>the loop over the patterns, shared by the two extractors\<close>
  "extract_matches patterns t =
     concat (map (\<lambda>pattern. filter (\<lambda>m. length m > 5) (map strip_py (rx_findall pattern t)))
                 patterns)"

definition extract_conditions_from_text :: "string \<Rightarrow> string list" where
  "extract_conditions_from_text t = take 5 (extract_matches condition_patterns t)"

definition extract_recommendations_from_text :: "string \<Rightarrow> string list" where
  "extract_recommendations_from_text t =
     (let recommendations = extract_matches recommendation_patterns t
      in if recommendations \<noteq> [] then take 5 recommendations
         else [''Consult a healthcare professional''])"

definition text_stage :: "string \<Rightarrow> SymptomAnalysis" where
  \<comment> \<open>the method after its first \<^verbatim>\<open>try\<close> block\<close>
  "text_stage response_text =
     (let st = parse_lines response_text;
          conditions1 = (if ps_conditions st = [] then extract_conditions_from_text response_text
                         else ps_conditions st);
          recommendations1 = (if ps_recommendations st = []
                              then extract_recommendations_from_text response_text
                              else ps_recommendations st);
          conditions2 = (if conditions1 = []
                         then [''Consult a healthcare professional for proper diagnosis'']
                         else conditions1);
          recommendations2 = (if recommendations1 = []
                              then [''Seek professional medical advice from a qualified healthcare provider'']
                              else recommendations1)
      in \<lparr>conditions = take 5 conditions2, recommendations = take 5 recommendations2,
          severity_assessment = ps_severity st\<rparr>)"

definition parse_text_response :: "loads \<Rightarrow> string \<Rightarrow> SymptomAnalysis" where
  "parse_text_response loads response_text =
     (case json_stage loads response_text of
        Some analysis \<Rightarrow> analysis
      | None \<Rightarrow> text_stage response_text)"


section \<open>Model invoker and orchestrator\<close>

text \<open>
  The model behind \<^verbatim>\<open>self.llm\<close> is a parameter: \<open>llm n messages\<close> is what its invocation
  number \<open>n\<close>, counted from \<open>0\<close>, returns on the contents of the messages, the text of the
  response or the exception raised. The node is modelled together with the list of the
  invocations it makes. The state key \<^verbatim>\<open>context\<close> is the field \<open>rag_context\<close>, and the
  key \<^verbatim>\<open>error\<close> holds the exception where the source holds its message.
\<close>

type_synonym llm = "nat \<Rightarrow> string list \<Rightarrow> py_error + string"

record SymptomAnalysisState =
  symptoms :: string
  rag_context :: "string list option"
  analysis :: "SymptomAnalysis option"
  error :: "py_error option"

definition system_msg :: string where
  "system_msg =
     ''You are a medical AI that analyzes symptoms. You MUST respond in the exact format '' @
     ''requested. Never acknowledge, explain, or ask questions - just provide the analysis '' @
     ''immediately in the specified format. Start every response with '' @
     [CHR 0x27] @
     ''CONDITIONS:'' @
     [CHR 0x27]"

definition context_text :: "string list option \<Rightarrow> string" where
  "context_text c =
     (case c of
        None \<Rightarrow> []
      | Some snippets \<Rightarrow>
          if snippets = [] then []
          else ''\<newline>\<newline>Relevant medical information from similar cases:\<newline>'' @
               py_join ''\<newline>'' snippets)"

definition prompt_text :: "SymptomAnalysisState \<Rightarrow> string" where
  \<open>prompt_text state =
     ''ANALYZE THE FOLLOWING SYMPTOMS NOW:\<newline>'' @
     ''\<newline>'' @
     ''Symptoms: '' @ symptoms state @
     ''\<newline>'' @ context_text (rag_context state) @
     ''\<newline>'' @
     ''\<newline>'' @
     ''IMPORTANT: This is for educational purposes only. Not medical advice.\<newline>'' @
     ''\<newline>'' @
     ''Provide your analysis in EXACTLY this format:\<newline>'' @
     ''\<newline>'' @
     ''CONDITIONS:\<newline>'' @
     ''1. [Specific condition name]\<newline>'' @
     ''2. [Specific condition name]\<newline>'' @
     ''3. [Specific condition name]\<newline>'' @
     ''4. [Specific condition name]\<newline>'' @
     ''5. [Specific condition name]\<newline>'' @
     ''\<newline>'' @
     ''RECOMMENDATIONS:\<newline>'' @
     ''1. [Specific actionable step]\<newline>'' @
     ''2. [Specific actionable step]\<newline>'' @
     ''3. [Specific actionable step]\<newline>'' @
     ''4. [Specific actionable step]\<newline>'' @
     ''5. [Specific actionable step]\<newline>'' @
     ''\<newline>'' @
     ''SEVERITY: [mild OR moderate OR severe]\<newline>'' @
     ''\<newline>'' @
     ''Start your response with "CONDITIONS:" immediately. Do not explain or acknowledge - just analyze.''\<close>

definition retry_msg :: "SymptomAnalysisState \<Rightarrow> string" where
  "retry_msg state =
     ''STOP. Do NOT acknowledge. ANALYZE THESE SYMPTOMS NOW: '' @ symptoms state @
     ''\<newline>\<newline>Start your response with '' @
     [CHR 0x27] @
     ''CONDITIONS:'' @
     [CHR 0x27] @
     '' followed by numbered list. Then '' @
     [CHR 0x27] @
     ''RECOMMENDATIONS:'' @
     [CHR 0x27] @
     '' followed by numbered list. Then '' @
     [CHR 0x27] @
     ''SEVERITY:'' @
     [CHR 0x27] @
     '' with one word.''"

definition acknowledgment_phrases :: "string list" where
  "acknowledgment_phrases =
     [''okay, i understand'', ''i will analyze'', ''i can help'', ''let me analyze'',
      ''i'' @ [CHR 0x27] @ ''ll provide'']"

definition near_empty :: "string \<Rightarrow> bool" where
  \<comment> \<open>\<^verbatim>\<open>not response_text or len(response_text.strip()) < 10\<close>\<close>
  "near_empty response_text = (response_text = [] \<or> length (strip_py response_text) < 10)"

definition acknowledged :: "string \<Rightarrow> bool" where
  \<comment> \<open>\<^verbatim>\<open>any(phrase in response_text.lower()[:200] for phrase in acknowledgment_phrases)
      and "CONDITIONS:" not in response_text.upper()\<close>\<close>
  "acknowledged response_text =
     (list_ex (\<lambda>phrase. contains phrase (take 200 (lower response_text)))
        acknowledgment_phrases \<and>
      \<not> contains (codes ''CONDITIONS:'') (upper response_text))"

definition fallback_analysis :: SymptomAnalysis where
  "fallback_analysis =
     \<lparr>conditions =
        [''Unable to analyze symptoms. Please consult a healthcare professional.''],
      recommendations = [''Seek immediate medical attention if symptoms are severe.''],
      severity_assessment = ''Unable to assess''\<rparr>"

definition analyze_symptoms_try ::
  "loads \<Rightarrow> llm \<Rightarrow> SymptomAnalysisState \<Rightarrow> (py_error + SymptomAnalysis) \<times> string list list" where
  \<comment> \<open>the body of the \<^verbatim>\<open>try\<close> block of the node: the analysis or the exception that leaves
      the block, and the invocations made\<close>
  "analyze_symptoms_try loads llm state =
     (let first = [system_msg, prompt_text state] in
      case llm 0 first of
        Inl e \<Rightarrow> (Inl e, [first])
      | Inr response_text \<Rightarrow>
          if near_empty response_text then (Inl ValueError, [first])
          else if acknowledged response_text then
            (let second = [system_msg, retry_msg state] in
             case llm 1 second of
               Inl e \<Rightarrow> (Inl e, [first, second])
             | Inr retry_text \<Rightarrow> (Inr (parse_text_response loads retry_text), [first, second]))
          else (Inr (parse_text_response loads response_text), [first]))"

definition analyze_symptoms_node ::
  "loads \<Rightarrow> llm \<Rightarrow> SymptomAnalysisState \<Rightarrow> SymptomAnalysisState \<times> string list list" where
  "analyze_symptoms_node loads llm state =
     (case analyze_symptoms_try loads llm state of
        (Inr a, calls) \<Rightarrow> (state\<lparr>analysis := Some a, error := None\<rparr>, calls)
      | (Inl e, calls) \<Rightarrow> (state\<lparr>error := Some e, analysis := Some fallback_analysis\<rparr>, calls))"

definition format_response_node :: "SymptomAnalysisState \<Rightarrow> SymptomAnalysisState" where
  "format_response_node state = state"

record analysis_dict =
  res_conditions :: "string list"
  res_recommendations :: "string list"
  res_severity :: string

definition initial_state :: "string \<Rightarrow> string list option \<Rightarrow> SymptomAnalysisState" where
  "initial_state symptoms0 context0 =
     \<lparr>symptoms = symptoms0, rag_context = context0, analysis = None, error = None\<rparr>"

definition fallback_dict :: analysis_dict where
  "fallback_dict =
     \<lparr>res_conditions =
        [''Unable to analyze symptoms. Please consult a healthcare professional.''],
      res_recommendations = [''Seek immediate medical attention if symptoms are severe.''],
      res_severity = ''Unable to assess''\<rparr>"

definition generate_symptom_analysis ::
  "loads \<Rightarrow> llm \<Rightarrow> string \<Rightarrow> string list option \<Rightarrow> analysis_dict" where
  \<comment> \<open>the graph runs the node \<^verbatim>\<open>analyze_symptoms\<close>, then \<^verbatim>\<open>format_response\<close>\<close>
  "generate_symptom_analysis loads llm symptoms0 context0 =
     (let final_state =
            format_response_node
              (fst (analyze_symptoms_node loads llm (initial_state symptoms0 context0)))
      in case analysis final_state of
           Some a \<Rightarrow> \<lparr>res_conditions = conditions a, res_recommendations = recommendations a,
                      res_severity = severity_assessment a\<rparr>
         | None \<Rightarrow> fallback_dict)"

text \<open>
  Stand-ins for the two parameters, for the concrete runs below: a decoder that rejects
  every text, a decoder that knows the one object of the first run, and four models:
  one whose backend cannot be reached, one that answers with the empty text, one that
  acknowledges at both invocations, and one that acknowledges in the middle of its first
  answer and fails at the second invocation.
\<close>

definition no_json :: loads where
  "no_json s = Inl ValueError"

definition empty_conditions_json :: loads where
  \<open>empty_conditions_json s =
     (if s = ''{"conditions": []}'' then Inr (JObject [(''conditions'', JArray [])])
      else Inl ValueError)\<close>

definition unreachable_llm :: llm where
  "unreachable_llm n messages = Inl (OtherError ''backend unreachable'')"

definition silent_llm :: llm where
  "silent_llm n messages = Inr []"

definition acknowledging_llm :: llm where
  "acknowledging_llm n messages =
     (if n = 0 then Inr ''Okay, I understand. I will analyze the symptoms.''
      else Inr (''I can help with that.\<newline>Condition list:\<newline>1. Common cold\<newline>'' @
                ''Recommendation list:\<newline>1. Rest and fluids''))"

definition chatty_llm :: llm where
  "chatty_llm n messages =
     (if n = 0 then Inr ''Thanks for the details. I can help with that.''
      else Inl (OtherError ''authentication failed''))"

definition fever_state :: SymptomAnalysisState where
  "fever_state = initial_state ''fever'' None"



section \<open>Properties of the chunker\<close>

lemma rfind_bounds: "- 1 \<le> rfind xs c \<and> rfind xs c < int (length xs)"
  by (induction xs) (auto simp: Let_def)

lemma py_index_le: "py_index n i \<le> n"
  by (auto simp: py_index_def)

lemma length_py_slice_le:
  assumes "i \<le> j"
  shows "int (length (py_slice xs i j)) \<le> j - i"
  using assms by (auto simp: py_slice_def py_index_def Let_def min_def max_def)

lemma chunk_window_end_le:
  assumes "0 \<le> chunk_size"
  shows "snd (chunk_window text chunk_size start) \<le> start + chunk_size"
proof -
  define chunk where "chunk = py_slice text start (start + chunk_size)"
  define bp where "bp = max (rfind chunk (CHR ''.'')) (rfind chunk (CHR 0x0A))"
  have "bp < int (length chunk)"
    using rfind_bounds [of chunk "CHR ''.''"] rfind_bounds [of chunk "CHR 0x0A"]
    by (simp add: bp_def)
  moreover have "int (length chunk) \<le> chunk_size"
    using length_py_slice_le [of start "start + chunk_size" "text"] assms
    by (simp add: chunk_def)
  ultimately have "start + bp + 1 \<le> start + chunk_size"
    by simp
  then show ?thesis
    unfolding chunk_window_def Let_def bp_def chunk_def by simp
qed

lemma py_slice_nonneg:
  assumes "0 \<le> i" "0 \<le> j"
  shows "py_slice xs i j = take (nat j - nat i) (drop (nat i) xs)"
  using assms by (auto simp: py_slice_def py_index_def Let_def min_def)

subsection \<open>A loop that cannot advance never returns\<close>

text \<open>
  When \<open>overlap\<close> is at least \<open>chunk_size\<close>, the next \<open>start\<close> is never to the right of
  the current one: \<open>start \<le> 0\<close> is preserved by every pass, so the test
  \<^verbatim>\<open>start < len(text)\<close> never fails.
\<close>

lemma chunk_loop_not_Some:
  assumes "chunk_loop text chunk_size overlap chunks start = Some y"
  shows "\<not> (0 \<le> chunk_size \<and> chunk_size \<le> overlap \<and>
            chunk_size < int (length text) \<and> start \<le> 0)"
proof (rule chunk_loop.raw_induct
    [where P = "\<lambda>t cs ov ch st y. \<not> (0 \<le> cs \<and> cs \<le> ov \<and> cs < int (length t) \<and> st \<le> 0)",
      OF _ assms])
  fix f :: "string \<Rightarrow> int \<Rightarrow> int \<Rightarrow> string list \<Rightarrow> int \<Rightarrow> string list option"
  fix t cs ov ch st y
  assume IH: "\<And>t cs ov ch st y. f t cs ov ch st = Some y \<Longrightarrow>
                \<not> (0 \<le> cs \<and> cs \<le> ov \<and> cs < int (length t) \<and> st \<le> 0)"
    and body: "(if st < int (length t)
                then f t cs ov (ch @ [strip_py (fst (chunk_window t cs st))])
                       (snd (chunk_window t cs st) - ov)
                else Some ch) = Some y"
  show "\<not> (0 \<le> cs \<and> cs \<le> ov \<and> cs < int (length t) \<and> st \<le> 0)"
  proof
    assume H: "0 \<le> cs \<and> cs \<le> ov \<and> cs < int (length t) \<and> st \<le> 0"
    let ?w = "chunk_window t cs st"
    from H have "st < int (length t)" by simp
    with body have run: "f t cs ov (ch @ [strip_py (fst ?w)]) (snd ?w - ov) = Some y"
      by simp
    have "snd ?w \<le> st + cs"
      using chunk_window_end_le [of cs t st] H by simp
    with H have "snd ?w - ov \<le> 0" by simp
    with IH [OF run] H show False by simp
  qed
qed

lemma chunk_loop_diverges:
  assumes "0 \<le> chunk_size" "chunk_size \<le> overlap" "chunk_size < int (length text)"
    and "start \<le> 0"
  shows "chunk_loop text chunk_size overlap chunks start = None"
proof (cases "chunk_loop text chunk_size overlap chunks start")
  case None
  then show ?thesis .
next
  case (Some y)
  from chunk_loop_not_Some [OF this] assms show ?thesis by simp
qed

lemma chunk_text_diverges:
  assumes "0 \<le> chunk_size" "chunk_size \<le> overlap" "chunk_size < int (length text)"
  shows "chunk_text text chunk_size overlap = None"
  using assms chunk_loop_diverges [of chunk_size overlap "text" 0 "[]"]
  by (simp add: chunk_text_def)

text \<open>
  C3. The claim: a call with \<open>overlap \<ge> chunk_size\<close> on a text longer than
  \<open>chunk_size\<close> fails fast with a configuration error, the guard \<open>overlap < chunk_size\<close>
  being checked before chunking begins. \<^verbatim>\<open>chunk_text\<close> has no such guard: on
  \<^verbatim>\<open>chunk_text("abc", 2, 2)\<close> the loop cuts the window \<^verbatim>\<open>"ab"\<close>, sets \<open>start\<close> back to
  \<open>2 - 2 = 0\<close> and repeats; the call never returns, neither a list nor an error.
\<close>

theorem chunk_text_no_overlap_guard: "chunk_text ''abc'' 2 2 = None"
  using chunk_text_diverges [of 2 2 "''abc''"] by simp

subsection \<open>A text that fits one window\<close>

text \<open>
  C7. The claim: for \<open>len(text) \<le> size\<close> the single chunk returned is the input stripped
  of leading and trailing whitespace. The early return hands back the text as it is,
  while the loop strips every chunk it appends: on \<^verbatim>\<open>chunk_text(" a", 1000, 200)\<close> the
  result is \<^verbatim>\<open>[" a"]\<close>, and the stripped input is \<^verbatim>\<open>"a"\<close>.
\<close>

theorem chunk_text_short_not_stripped:
  "chunk_text '' a'' 1000 200 = Some ['' a''] \<and> strip_py '' a'' = ''a''"
  by (simp add: chunk_text_def strip_py_def py_isspace_def)

lemma chunk_text_short:
  assumes "int (length text) \<le> chunk_size"
  shows "chunk_text text chunk_size overlap = Some [text]"
  using assms by (simp add: chunk_text_def)

subsection \<open>Coverage\<close>

text \<open>
  One pass from a position \<open>s\<close> inside the text, when \<open>overlap < size\<close> and
  \<open>2 * overlap \<le> size + 2\<close>: the window is the slice from \<open>s\<close> to the new end \<open>e'\<close>, at
  most \<open>size\<close> characters long, and \<open>e'\<close> lies more than \<open>overlap\<close> to the right of \<open>s\<close>, so
  the next start is to the right of \<open>s\<close>. A window cut at a period or line break ends
  past the middle of the full window, which is where the second bound is needed.
\<close>

lemma chunk_window_cut:
  assumes "0 < chunk_size" "0 \<le> overlap" "overlap < chunk_size"
    and "2 * overlap \<le> chunk_size + 2" and "s < length text"
  shows "\<exists>e'. snd (chunk_window text chunk_size (int s)) = int e' \<and> s + nat overlap < e' \<and>
              e' \<le> s + nat chunk_size \<and>
              fst (chunk_window text chunk_size (int s)) = take (e' - s) (drop s text)"
proof -
  define chunk where "chunk = py_slice text (int s) (int s + chunk_size)"
  define bp where "bp = max (rfind chunk (CHR ''.'')) (rfind chunk (CHR 0x0A))"
  have chunk_eq: "chunk = take (nat chunk_size) (drop s text)"
    using assms(1) by (simp add: chunk_def py_slice_nonneg nat_add_distrib)
  have bp_lt: "bp < int (length chunk)"
    using rfind_bounds [of chunk "CHR ''.''"] rfind_bounds [of chunk "CHR 0x0A"]
    by (simp add: bp_def)
  show ?thesis
  proof (cases "int s + chunk_size < int (length text) \<and> 2 * bp > chunk_size")
    case True
    then have w: "chunk_window text chunk_size (int s) =
                    (py_slice chunk 0 (bp + 1), int s + bp + 1)"
      unfolding chunk_window_def Let_def bp_def chunk_def by simp
    from True assms have bp_pos: "0 < bp" "overlap \<le> bp" by auto
    have len: "length chunk \<le> nat chunk_size" by (simp add: chunk_eq)
    with bp_lt have le: "nat (bp + 1) \<le> nat chunk_size" by linarith
    then have "py_slice chunk 0 (bp + 1) = take (nat (bp + 1)) (drop s text)"
      using bp_pos by (simp add: py_slice_nonneg chunk_eq min_def)
    then show ?thesis
      using w bp_pos assms le
      by (intro exI [of _ "s + nat (bp + 1)"]) (auto simp: nat_add_distrib)
  next
    case False
    then have w: "chunk_window text chunk_size (int s) = (chunk, int s + chunk_size)"
      unfolding chunk_window_def Let_def bp_def chunk_def by auto
    show ?thesis
      using w assms chunk_eq
      by (intro exI [of _ "s + nat chunk_size"]) auto
  qed
qed

text \<open>
  The loop from the start \<open>e - overlap\<close>, where \<open>e\<close> is the end of the window before:
  it returns, and what it appends are the stripped forms of windows chained after \<open>e\<close>,
  whose parts beyond the overlap make up the text from \<open>e\<close> on. By induction on the
  distance from the start to the end of the text.
\<close>

lemma chunk_loop_windows:
  assumes "0 < chunk_size" "0 \<le> overlap" "overlap < chunk_size"
    and "2 * overlap \<le> chunk_size + 2" and "nat overlap \<le> e"
  shows "\<exists>bs. chained (nat chunk_size) (nat overlap) e bs \<and>
              chunk_loop text chunk_size overlap chunks (int e - overlap) =
                Some (chunks @ map strip_py (map (window text) bs)) \<and>
              concat (map (drop (nat overlap)) (map (window text) bs)) = drop e text"
  using assms(5)
proof (induction "length text - (e - nat overlap)" arbitrary: e chunks rule: less_induct)
  case less
  define s where "s = e - nat overlap"
  have start: "int e - overlap = int s"
    using less.prems assms(2) by (simp add: s_def)
  have se: "s + nat overlap = e"
    using less.prems by (simp add: s_def)
  show ?case
  proof (cases "s < length text")
    case False
    then have "chunk_loop text chunk_size overlap chunks (int e - overlap) = Some chunks"
      by (subst chunk_loop.simps) (simp add: start)
    moreover from False have "drop e text = []"
      by (simp add: s_def)
    ultimately show ?thesis
      by (intro exI [of _ "[]"]) simp
  next
    case True
    from chunk_window_cut [OF assms(1-4) True]
    obtain e' where e': "snd (chunk_window text chunk_size (int s)) = int e'"
        "s + nat overlap < e'" "e' \<le> s + nat chunk_size"
        "fst (chunk_window text chunk_size (int s)) = take (e' - s) (drop s text)"
      by blast
    define w where "w = window text (s, e')"
    have w_eq: "w = take (e' - s) (drop s text)"
      by (simp add: w_def window_def)
    have e_le: "e < e'" "nat overlap \<le> e'"
      using e'(2) less.prems by (simp_all add: s_def)
    have "length text - (e' - nat overlap) < length text - (e - nat overlap)"
      using True e_le less.prems by (simp add: s_def)
    from less.hyps [OF this e_le(2), of "chunks @ [strip_py w]"]
    obtain bs where bs:
        "chained (nat chunk_size) (nat overlap) e' bs"
        "chunk_loop text chunk_size overlap (chunks @ [strip_py w]) (int e' - overlap) =
           Some ((chunks @ [strip_py w]) @ map strip_py (map (window text) bs))"
        "concat (map (drop (nat overlap)) (map (window text) bs)) = drop e' text"
      by blast
    have link: "chained (nat chunk_size) (nat overlap) e ((s, e') # bs)"
      using bs(1) se e_le(1) e'(3) by simp
    have run: "chunk_loop text chunk_size overlap chunks (int e - overlap) =
                 Some (chunks @ map strip_py (map (window text) ((s, e') # bs)))"
      using True bs(2) e'(1,4)
      by (subst chunk_loop.simps) (simp add: start w_eq w_def [symmetric])
    have "drop (nat overlap) w = take (e' - e) (drop e text)"
      using se by (auto simp: w_eq drop_take add.commute)
    moreover have "take (e' - e) (drop e text) @ drop e' text = drop e text"
    proof -
      have "drop e' text = drop (e' - e) (drop e text)"
        using e_le(1) by simp
      then show ?thesis
        by (simp only: append_take_drop_id)
    qed
    ultimately have "concat (map (drop (nat overlap)) (map (window text) ((s, e') # bs))) =
                       drop e text"
      using bs(3) by (simp add: w_def [symmetric])
    with run link show ?thesis by blast
  qed
qed

lemma chunk_text_windows:
  assumes "0 < chunk_size" "0 \<le> overlap" "overlap < chunk_size"
    and "2 * overlap \<le> chunk_size + 2"
    and long: "chunk_size < int (length text)"
  shows "\<exists>e bs. nat overlap < e \<and> e \<le> nat chunk_size \<and>
           chained (nat chunk_size) (nat overlap) e bs \<and>
           chunk_text text chunk_size overlap =
             Some (map strip_py (map (window text) ((0, e) # bs))) \<and>
           remove_overlaps (nat overlap) (map (window text) ((0, e) # bs)) = text"
proof -
  have pos: "0 < length text"
    using assms(1) long by (cases "text") simp_all
  from chunk_window_cut [OF assms(1-4) pos]
  obtain e' where e': "snd (chunk_window text chunk_size 0) = int e'"
      "nat overlap < e'" "e' \<le> nat chunk_size"
      "fst (chunk_window text chunk_size 0) = take e' text"
    by auto
  have w0: "window text (0, e') = take e' text"
    by (simp add: window_def)
  from chunk_loop_windows [OF assms(1-4), of e' "text" "[strip_py (take e' text)]"] e'(2)
  obtain bs where bs:
      "chained (nat chunk_size) (nat overlap) e' bs"
      "chunk_loop text chunk_size overlap [strip_py (take e' text)] (int e' - overlap) =
         Some ([strip_py (take e' text)] @ map strip_py (map (window text) bs))"
      "concat (map (drop (nat overlap)) (map (window text) bs)) = drop e' text"
    by auto
  have "chunk_text text chunk_size overlap =
          Some (map strip_py (map (window text) ((0, e') # bs)))"
    using long pos bs(2) e'(1,4)
    by (simp add: chunk_text_def w0) (subst chunk_loop.simps, simp)
  moreover have "remove_overlaps (nat overlap) (map (window text) ((0, e') # bs)) = text"
    using bs(3) by (simp add: remove_overlaps_def w0)
  ultimately show ?thesis
    using e'(2,3) bs(1) by blast
qed

text \<open>
  A pass that ends where it started, \<open>end - overlap = start\<close> inside the text, repeats for
  ever: the loop never returns.
\<close>

lemma chunk_loop_stuck_not_Some:
  assumes "chunk_loop text chunk_size overlap chunks start = Some y"
  shows "\<not> (start < int (length text) \<and>
            snd (chunk_window text chunk_size start) - overlap = start)"
proof (rule chunk_loop.raw_induct
    [where P = "\<lambda>t cs ov ch st y.
                  \<not> (st < int (length t) \<and> snd (chunk_window t cs st) - ov = st)",
      OF _ assms])
  fix f :: "string \<Rightarrow> int \<Rightarrow> int \<Rightarrow> string list \<Rightarrow> int \<Rightarrow> string list option"
  fix t cs ov ch st y
  assume IH: "\<And>t cs ov ch st y. f t cs ov ch st = Some y \<Longrightarrow>
                \<not> (st < int (length t) \<and> snd (chunk_window t cs st) - ov = st)"
    and body: "(if st < int (length t)
                then f t cs ov (ch @ [strip_py (fst (chunk_window t cs st))])
                       (snd (chunk_window t cs st) - ov)
                else Some ch) = Some y"
  show "\<not> (st < int (length t) \<and> snd (chunk_window t cs st) - ov = st)"
  proof
    assume H: "st < int (length t) \<and> snd (chunk_window t cs st) - ov = st"
    with body have "f t cs ov (ch @ [strip_py (fst (chunk_window t cs st))]) st = Some y"
      by simp
    from IH [OF this] H show False by simp
  qed
qed

lemma chunk_loop_stuck:
  assumes "start < int (length text)"
    and "snd (chunk_window text chunk_size start) - overlap = start"
  shows "chunk_loop text chunk_size overlap chunks start = None"
proof (cases "chunk_loop text chunk_size overlap chunks start")
  case None
  then show ?thesis .
next
  case (Some y)
  from chunk_loop_stuck_not_Some [OF this] assms show ?thesis by simp
qed

text \<open>
  The second bound cannot be relaxed. For \<open>overlap < size\<close> with \<open>2 * overlap > size + 2\<close>,
  a text of \<open>size + 1\<close> characters whose only period is at index \<open>overlap - 1\<close> is cut
  there, past the middle of the window, and the next start is \<open>0\<close> again.
\<close>

lemma rfind_absent:
  assumes "c \<notin> set xs"
  shows "rfind xs c = - 1"
  using assms by (induction xs) (auto simp: Let_def)

lemma rfind_last:
  assumes "c \<notin> set ys"
  shows "rfind (xs @ c # ys) c = int (length xs)"
proof (induction xs)
  case Nil
  then show ?case
    using rfind_absent [OF assms] by (simp add: Let_def)
next
  case (Cons x xs)
  then show ?case
    by (simp add: Let_def)
qed

lemma chunk_text_bound_sharp:
  assumes "overlap < chunk_size" "chunk_size + 2 < 2 * overlap"
  shows "chunk_text (replicate (nat overlap - 1) (CHR ''a'') @ CHR ''.'' #
                       replicate (nat (chunk_size - overlap) + 1) (CHR ''a''))
           chunk_size overlap = None"
proof -
  define n where "n = nat overlap - 1"
  define m where "m = nat (chunk_size - overlap)"
  define t where "t = replicate n (CHR ''a'') @ CHR ''.'' # replicate (m + 1) (CHR ''a'')"
  have ov: "overlap = int n + 1" and cs: "chunk_size = int n + 1 + int m"
    using assms by (simp_all add: n_def m_def)
  have len: "int (length t) = chunk_size + 1"
    by (simp add: t_def cs)
  have tk: "take m (CHR ''a'' # replicate m (CHR ''a'')) = replicate m (CHR ''a'')"
    using take_replicate [of m "Suc m" "CHR ''a''"] by (simp del: take_replicate)
  have chunk: "py_slice t 0 chunk_size =
                 replicate n (CHR ''a'') @ CHR ''.'' # replicate m (CHR ''a'')"
    by (simp add: py_slice_def py_index_def t_def cs Let_def min_def nat_add_distrib tk)
  have p: "rfind (py_slice t 0 chunk_size) (CHR ''.'') = int n"
    unfolding chunk
    using rfind_last [of "CHR ''.''" "replicate m (CHR ''a'')" "replicate n (CHR ''a'')"]
    by simp
  have nl: "rfind (py_slice t 0 chunk_size) (CHR 0x0A) = - 1"
    unfolding chunk by (rule rfind_absent) simp
  have half: "2 * int n > chunk_size"
    using assms by (simp add: ov)
  have "py_slice (py_slice t 0 chunk_size) 0 (int n + 1) = replicate n (CHR ''a'') @ [CHR ''.'']"
    unfolding chunk by (simp add: py_slice_def py_index_def Let_def min_def nat_add_distrib)
  then have w: "snd (chunk_window t chunk_size 0) = overlap"
    using len p nl half by (simp add: chunk_window_def Let_def ov)
  have "chunk_loop t chunk_size overlap [] 0 = None"
    using len assms w by (intro chunk_loop_stuck) simp_all
  then show ?thesis
    using len by (simp add: chunk_text_def t_def n_def m_def)
qed

text \<open>
  C6. The claim: for \<open>overlap < size\<close>, the returned chunks with the overlapped regions
  removed give back the text exactly. It fails in two ways. Every chunk of the loop is
  stripped: \<^verbatim>\<open>chunk_text("ab cd", 3, 1)\<close> cuts the windows \<^verbatim>\<open>"ab "\<close>, \<^verbatim>\<open>" cd"\<close>, \<^verbatim>\<open>"d"\<close>
  and returns \<^verbatim>\<open>["ab", "cd", "d"]\<close>; the space is in no chunk, and removing the one
  overlapped character of every later chunk leaves \<^verbatim>\<open>"abd"\<close>. And \<open>overlap < size\<close> does
  not make the call return: \<^verbatim>\<open>chunk_text("abcdef.hijklmnop", 10, 7)\<close> cuts its first window
  at the period, \<^verbatim>\<open>"abcdef."\<close>, sets \<open>start\<close> back to \<open>7 - 7 = 0\<close> and repeats for ever.
\<close>

theorem chunk_text_coverage_counterexample:
  "chunk_text ''ab cd'' 3 1 = Some [''ab'', ''cd'', ''d''] \<and>
   remove_overlaps 1 [''ab'', ''cd'', ''d''] \<noteq> ''ab cd'' \<and>
   CHR '' '' \<notin> set (concat [''ab'', ''cd'', ''d'']) \<and>
   chunk_text ''abcdef.hijklmnop'' 10 7 = None"
proof -
  have "chunk_text ''ab cd'' 3 1 = Some [''ab'', ''cd'', ''d'']"
    by (simp add: chunk_text_def chunk_loop.simps chunk_window_def strip_py_def py_isspace_def
        py_slice_def py_index_def)
  moreover have "remove_overlaps 1 [''ab'', ''cd'', ''d''] \<noteq> ''ab cd''"
    by (simp add: remove_overlaps_def)
  moreover have "chunk_window ''abcdef.hijklmnop'' 10 0 = (''abcdef.'', 7)"
    by (simp add: chunk_window_def py_slice_def py_index_def Let_def)
  then have "chunk_text ''abcdef.hijklmnop'' 10 7 = None"
    using chunk_loop_stuck [of 0 "''abcdef.hijklmnop''" 10 7 "[]"]
    by (simp add: chunk_text_def)
  ultimately show ?thesis by simp
qed

text \<open>
  C6, as amended. For \<open>0 < size\<close>, \<open>0 \<le> overlap < size\<close> and \<open>2 * overlap \<le> size + 2\<close> the call
  returns. A text no longer than \<open>size\<close> comes back as the one chunk, unchanged. For a
  longer text there are windows \<^verbatim>\<open>text[s:e]\<close> of the text, the first from \<open>0\<close>, every later
  one starting \<open>overlap\<close> characters before the end of the one before and ending to the
  right of it, none longer than \<open>size\<close>, such that the chunks returned are these windows,
  each stripped of leading and trailing whitespace, and the windows themselves, the first
  \<open>overlap\<close> characters of every window but the first removed, concatenate to the text
  exactly. So the chunks cover the text up to whitespace at the edges of the windows.
\<close>

theorem chunk_text_coverage:
  assumes "0 < chunk_size" "0 \<le> overlap" "overlap < chunk_size"
    and "2 * overlap \<le> chunk_size + 2"
  shows "if int (length text) \<le> chunk_size
         then chunk_text text chunk_size overlap = Some [text]
         else (\<exists>e bs. nat overlap < e \<and> e \<le> nat chunk_size \<and>
                 chained (nat chunk_size) (nat overlap) e bs \<and>
                 chunk_text text chunk_size overlap =
                   Some (map strip_py (map (window text) ((0, e) # bs))) \<and>
                 remove_overlaps (nat overlap) (map (window text) ((0, e) # bs)) = text)"
proof (cases "int (length text) \<le> chunk_size")
  case True
  then show ?thesis
    by (simp add: chunk_text_def)
next
  case False
  with chunk_text_windows [OF assms, of "text"] show ?thesis by simp
qed

theorem chunk_text_coverage_witness:
  "(0::int) < 3 \<and> (0::int) \<le> 2 \<and> (2::int) < 3 \<and> 2 * (2::int) \<le> 3 + 2 \<and>
   (\<exists>e bs. nat 2 < e \<and> e \<le> nat 3 \<and> chained (nat 3) (nat 2) e bs \<and>
      chunk_text ''ab.de'' 3 2 = Some (map strip_py (map (window ''ab.de'') ((0, e) # bs))) \<and>
      remove_overlaps (nat 2) (map (window ''ab.de'') ((0, e) # bs)) = ''ab.de'')"
  using chunk_text_coverage [of 3 2 "''ab.de''"] by simp
section \<open>Properties of the embedder\<close>

lemma length_hexdigest: "length (hexdigest d) = 2 * length d"
  by (induction d) (simp_all add: hexdigest_def hex_byte_def)

lemma hexdigest_pair:
  "k < length d \<Longrightarrow> take 2 (drop (2 * k) (hexdigest d)) = hex_byte (d ! k)"
proof (induction d arbitrary: k)
  case Nil
  then show ?case by simp
next
  case (Cons b d)
  show ?case
  proof (cases k)
    case 0
    then show ?thesis by (simp add: hexdigest_def hex_byte_def)
  next
    case (Suc j)
    with Cons.prems have "j < length d" by simp
    from Cons.IH [OF this] Suc show ?thesis
      by (simp add: hexdigest_def hex_byte_def)
  qed
qed

lemma hex_value_digit: "n < 16 \<Longrightarrow> hex_value (hex_digit n) = Some n"
  by (auto simp: hex_value_def hex_digit_def Let_def)

lemma int16_hex_byte: "int16 (hex_byte b) = Inr (uint b)"
proof -
  define n where "n = unat b"
  have n: "n < 256"
    using unsigned_less [of b, where 'a = nat] by (simp add: n_def)
  then have lt: "n div 16 < 16" "n mod 16 < 16"
    by simp_all
  have "16 * int (n div 16) + int (n mod 16) = int n"
    by (simp add: of_nat_div of_nat_mod)
  moreover have "uint b = int n"
    by (simp add: n_def)
  ultimately show ?thesis
    using lt unfolding int16_def hex_byte_def n_def [symmetric]
    by (simp add: hex_value_digit)
qed

lemma collect_Inr: "collect (map (\<lambda>x. Inr (f x)) xs) = Inr (map f xs)"
  by (induction xs) simp_all

lemma hex_pair:
  assumes "k < length d"
  shows "int16 (py_slice (hexdigest d) (2 * int k) (2 * int k + 2)) = Inr (uint (d ! k))"
proof -
  have "py_slice (hexdigest d) (2 * int k) (2 * int k + 2) = take 2 (drop (2 * k) (hexdigest d))"
    by (simp add: py_slice_nonneg nat_add_distrib nat_mult_distrib)
  with assms show ?thesis
    by (simp add: hexdigest_pair int16_hex_byte)
qed

lemma hex_values:
  "collect (map (\<lambda>k. int16 (py_slice (hexdigest d) (2 * int k) (2 * int k + 2)))
              [0 ..< length d]) = Inr (map uint d)"
proof -
  have "map (\<lambda>k. int16 (py_slice (hexdigest d) (2 * int k) (2 * int k + 2))) [0 ..< length d] =
        map (\<lambda>k. Inr (uint (d ! k))) [0 ..< length d]"
    by (rule map_cong) (simp_all add: hex_pair)
  moreover have "map (\<lambda>k. uint (d ! k)) [0 ..< length d] = map uint d"
    by (rule nth_equalityI) simp_all
  ultimately show ?thesis
    by (simp only: collect_Inr)
qed

lemma py_slice_all:
  assumes "int (length xs) \<le> j"
  shows "py_slice xs 0 j = xs"
  using assms by (simp add: py_slice_nonneg)

lemma hex_embedding_digest:
  assumes "length d < 1024"
  shows "hex_embedding (hexdigest d) = Inr (digest_vector d)"
proof -
  have stop: "(min (1024 * 2) (length (hexdigest d)) + 1) div 2 = length d"
    using assms by (simp add: length_hexdigest)
  have len: "length (map (\<lambda>v. real_of_int v / 255) (map uint d) @
                     replicate (1024 - length d) 0) = 1024"
    using assms by simp
  have "hex_embedding (hexdigest d) =
          Inr (py_slice (map (\<lambda>v. real_of_int v / 255) (map uint d) @
                         replicate (1024 - length d) 0) 0 1024)"
    unfolding hex_embedding_def Let_def stop hex_values
    using assms by simp
  also have "py_slice (map (\<lambda>v. real_of_int v / 255) (map uint d) @
                       replicate (1024 - length d) 0) 0 1024 =
             map (\<lambda>v. real_of_int v / 255) (map uint d) @ replicate (1024 - length d) 0"
    by (rule py_slice_all) (use assms in simp)
  also have "\<dots> = digest_vector d"
    by (simp add: digest_vector_def comp_def)
  finally show ?thesis .
qed

lemma fallback_embedding_eq:
  assumes "length (sha256 (utf8_encode text)) < 1024"
  shows "fallback_embedding sha256 text = Inr (digest_vector (sha256 (utf8_encode text)))"
  using assms by (simp add: fallback_embedding_def hex_embedding_digest)

lemma length_digest_vector: "length d \<le> 1024 \<Longrightarrow> length (digest_vector d) = 1024"
  by (simp add: digest_vector_def)

lemma byte_fraction: "0 \<le> real_of_int (uint b) / 255 \<and> real_of_int (uint b) / 255 \<le> 1"
  for b :: "8 word"
proof -
  have "uint b < 256"
    using uint_bounded [of b] by simp
  then have "real_of_int (uint b) \<le> 255"
    by linarith
  moreover have "0 \<le> real_of_int (uint b)"
    by (rule of_int_nonneg) simp
  ultimately show ?thesis
    by simp
qed

lemma digest_vector_range: "list_all (\<lambda>v. 0 \<le> v \<and> v \<le> 1) (digest_vector d)"
  unfolding digest_vector_def list_all_iff
  using byte_fraction by auto

text \<open>
  C10. On the fallback path (the import of the embedding model fails), and with a digest
  of 32 bytes as SHA-256 gives, the vector returned for any text has exactly 1024
  entries: the 32 bytes of the digest of the encoded text, each divided by 255, followed
  by 992 entries equal to 0. It is a function of the text alone.
\<close>

theorem fallback_embedding_shape:
  assumes "encode text = Inl ImportError"
    and "length (sha256 (utf8_encode text)) = 32"
  shows "generate_embedding sha256 encode text =
           Inr (map (\<lambda>b. real_of_int (uint b) / 255) (sha256 (utf8_encode text)) @
                replicate 992 0)"
  using assms
  by (simp add: generate_embedding_def fallback_embedding_eq digest_vector_def)

theorem fallback_embedding_shape_witness:
  "(\<lambda>t. Inl ImportError :: py_error + real list) ''headache and fever'' = Inl ImportError \<and>
   length ((\<lambda>m. headache_digest) (utf8_encode ''headache and fever'')) = 32 \<and>
   generate_embedding (\<lambda>m. headache_digest) (\<lambda>t. Inl ImportError) ''headache and fever'' =
     Inr (map (\<lambda>b. real_of_int (uint b) / 255) headache_digest @ replicate 992 0)"
  using fallback_embedding_shape
    [of "\<lambda>t. Inl ImportError" "''headache and fever''" "\<lambda>m. headache_digest"]
  by (simp add: headache_digest_def)

text \<open>
  C5. The claim: the fallback vector is a pure function of the text, has every value in
  \<open>[0, 1]\<close>, and has length \<open>D\<close>, the dimension of the vector index, 384. The code
  creates the index with dimension 384 and its test expects 384 entries, but the fallback
  fills the vector up to 1024 entries: for \<^verbatim>\<open>"headache and fever"\<close> the vector has
  length 1024. The other two parts hold (\<open>generate_embedding_fallback_range\<close>).
\<close>

theorem fallback_embedding_dimension:
  "map_sum id length
     (generate_embedding (\<lambda>m. headache_digest) (\<lambda>t. Inl ImportError) ''headache and fever'') =
     Inr 1024 \<and>
   index_dimension = 384"
  by (simp add: generate_embedding_def fallback_embedding_eq length_digest_vector
      index_dimension_def headache_digest_def)

lemma generate_embedding_fallback_range:
  assumes "encode text = Inl ImportError"
    and "length (sha256 (utf8_encode text)) = 32"
  shows "\<exists>v. generate_embedding sha256 encode text = Inr v \<and> length v = 1024 \<and>
             list_all (\<lambda>x. 0 \<le> x \<and> x \<le> 1) v"
  using assms
  by (simp add: generate_embedding_def fallback_embedding_eq length_digest_vector
      digest_vector_range)

section \<open>Properties of the retriever\<close>

text \<open>
  C9. When the index is unavailable, that is \<^verbatim>\<open>self.index\<close> is \<open>None\<close> or the query
  raises, \<^verbatim>\<open>search_similar_symptoms\<close> and \<^verbatim>\<open>search_pdf_content\<close> return the empty
  list, for every embedding and every \<open>top_k\<close>. Neither can raise: in the model both have
  a list as their result, the \<^verbatim>\<open>except Exception\<close> branch being the empty list.
\<close>

theorem search_unavailable_index:
  "search_similar_symptoms None embedding top_k = [] \<and>
   search_pdf_content None embedding top_k = [] \<and>
   (query embedding top_k = Inl e \<longrightarrow>
      search_similar_symptoms (Some query) embedding top_k = [] \<and>
      search_pdf_content (Some query) embedding top_k = [])"
  by (simp add: search_similar_symptoms_def search_pdf_content_def)

theorem search_unavailable_index_witness:
  "(\<lambda>v k. Inl (OtherError ''index unreachable'') :: py_error + match list) [0.5] 5 =
     Inl (OtherError ''index unreachable'') \<and>
   search_similar_symptoms (Some (\<lambda>v k. Inl (OtherError ''index unreachable''))) [0.5] 5 = [] \<and>
   search_pdf_content (Some (\<lambda>v k. Inl (OtherError ''index unreachable''))) [0.5] 5 = []"
  using search_unavailable_index
    [of "[0.5]" 5 "\<lambda>v k. Inl (OtherError ''index unreachable'')" "OtherError ''index unreachable''"]
  by simp


section \<open>Properties of the response parser\<close>

subsection \<open>The structured stage returns what it decodes\<close>

text \<open>
  After the first \<^verbatim>\<open>try\<close> block the method caps both lists at five items and fills an
  empty list with an advisory, so its result there has one to five items in each list.
\<close>

lemma text_stage_bounds:
  "1 \<le> length (conditions (text_stage t)) \<and> length (conditions (text_stage t)) \<le> 5 \<and>
   1 \<le> length (recommendations (text_stage t)) \<and>
   length (recommendations (text_stage t)) \<le> 5"
  by (auto simp: text_stage_def Let_def extract_recommendations_from_text_def min_def
      Suc_le_eq)

text \<open>
  C1. The claim: for every response text the parser returns one to five conditions and
  one to five recommendations. The early return of the first \<^verbatim>\<open>try\<close> block hands the
  decoded lists to \<^verbatim>\<open>SymptomAnalysis\<close> as they are, without the cap and without the
  advisories that the rest of the method applies: on the response
  \<^verbatim>\<open>{"conditions": []}\<close>, which \<^verbatim>\<open>json.loads\<close> decodes to a dictionary with an empty list,
  the parser returns no condition and no recommendation.
\<close>

theorem parse_text_response_json_unbounded:
  \<open>parse_text_response empty_conditions_json ''{"conditions": []}'' =
     \<lparr>conditions = [], recommendations = [], severity_assessment = ''moderate''\<rparr>\<close>
  by code_simp

subsection \<open>Severity: the last line that names a level\<close>


















section \<open>Properties of the invoker and the orchestrator\<close>

lemma analyze_symptoms_try_first_fails:
  assumes "llm 0 [system_msg, prompt_text state] = Inl e"
  shows "analyze_symptoms_try loads llm state = (Inl e, [[system_msg, prompt_text state]])"
  using assms by (simp add: analyze_symptoms_try_def Let_def)

lemma analyze_symptoms_try_first_returns:
  assumes "llm 0 [system_msg, prompt_text state] = Inr t"
  shows "analyze_symptoms_try loads llm state =
           (if near_empty t then (Inl ValueError, [[system_msg, prompt_text state]])
            else if acknowledged t then
              (case llm 1 [system_msg, retry_msg state] of
                 Inl e \<Rightarrow> Inl e
               | Inr retry_text \<Rightarrow> Inr (parse_text_response loads retry_text),
               [[system_msg, prompt_text state], [system_msg, retry_msg state]])
            else (Inr (parse_text_response loads t), [[system_msg, prompt_text state]]))"
  using assms by (simp add: analyze_symptoms_try_def Let_def split: sum.splits)

lemma analyze_symptoms_node_failure:
  assumes "fst (analyze_symptoms_try loads llm state) = Inl e"
  shows "analysis (fst (analyze_symptoms_node loads llm state)) = Some fallback_analysis"
  using assms
  by (cases "analyze_symptoms_try loads llm state") (simp add: analyze_symptoms_node_def)

lemma generate_symptom_analysis_fallback:
  assumes "fst (analyze_symptoms_try loads llm (initial_state symptoms0 context0)) = Inl e"
  shows "generate_symptom_analysis loads llm symptoms0 context0 = fallback_dict"
  using analyze_symptoms_node_failure [OF assms]
  by (simp add: generate_symptom_analysis_def format_response_node_def Let_def
      fallback_dict_def fallback_analysis_def)

text \<open>
  C2. The claim: when the invocation of the model fails, the result has the severity
  \<^verbatim>\<open>unknown\<close>. The severity of the fallback is the text \<^verbatim>\<open>Unable to assess\<close>, in the node and
  in both fallbacks of \<^verbatim>\<open>generate_symptom_analysis\<close>; no path of the service produces
  \<^verbatim>\<open>unknown\<close>.
\<close>

theorem generate_symptom_analysis_severity_counterexample:
  "res_severity (generate_symptom_analysis no_json unreachable_llm ''fever'' None) =
     ''Unable to assess'' \<and>
   res_severity (generate_symptom_analysis no_json unreachable_llm ''fever'' None) \<noteq>
     ''unknown''"
proof -
  have "unreachable_llm 0 [system_msg, prompt_text (initial_state ''fever'' None)] =
          Inl (OtherError ''backend unreachable'')"
    by (simp add: unreachable_llm_def)
  then have "analyze_symptoms_try no_json unreachable_llm (initial_state ''fever'' None) =
               (Inl (OtherError ''backend unreachable''),
                [[system_msg, prompt_text (initial_state ''fever'' None)]])"
    by (rule analyze_symptoms_try_first_fails)
  then have "generate_symptom_analysis no_json unreachable_llm ''fever'' None = fallback_dict"
    by (intro generate_symptom_analysis_fallback) simp
  then show ?thesis by (simp add: fallback_dict_def)
qed

text \<open>
  C2, as amended. For every symptoms text and optional context, when the invocation of the
  model raises, at the first attempt or at the retry that follows an acknowledgment,
  \<^verbatim>\<open>generate_symptom_analysis\<close> returns the result with the one advisory condition, the one
  advisory recommendation and the severity \<^verbatim>\<open>Unable to assess\<close>. The result is a plain
  value: no exception leaves the function.
\<close>

theorem generate_symptom_analysis_failure:
  assumes "llm 0 [system_msg, prompt_text (initial_state symptoms0 context0)] = Inl e \<or>
           (\<exists>t. llm 0 [system_msg, prompt_text (initial_state symptoms0 context0)] = Inr t \<and>
                \<not> near_empty t \<and> acknowledged t \<and>
                llm 1 [system_msg, retry_msg (initial_state symptoms0 context0)] = Inl e)"
  shows "generate_symptom_analysis loads llm symptoms0 context0 =
           \<lparr>res_conditions =
              [''Unable to analyze symptoms. Please consult a healthcare professional.''],
            res_recommendations =
              [''Seek immediate medical attention if symptoms are severe.''],
            res_severity = ''Unable to assess''\<rparr>"
proof -
  have "fst (analyze_symptoms_try loads llm (initial_state symptoms0 context0)) = Inl e"
    using assms
  proof
    assume "llm 0 [system_msg, prompt_text (initial_state symptoms0 context0)] = Inl e"
    then have "analyze_symptoms_try loads llm (initial_state symptoms0 context0) =
                 (Inl e, [[system_msg, prompt_text (initial_state symptoms0 context0)]])"
      by (rule analyze_symptoms_try_first_fails)
    then show ?thesis by simp
  next
    assume "\<exists>t. llm 0 [system_msg, prompt_text (initial_state symptoms0 context0)] = Inr t \<and>
                \<not> near_empty t \<and> acknowledged t \<and>
                llm 1 [system_msg, retry_msg (initial_state symptoms0 context0)] = Inl e"
    then obtain t where t: "llm 0 [system_msg, prompt_text (initial_state symptoms0 context0)] = Inr t"
        "\<not> near_empty t" "acknowledged t"
        "llm 1 [system_msg, retry_msg (initial_state symptoms0 context0)] = Inl e"
      by blast
    from analyze_symptoms_try_first_returns
           [of llm "initial_state symptoms0 context0" t loads] t
    show ?thesis by simp
  qed
  from generate_symptom_analysis_fallback [OF this] show ?thesis
    by (simp add: fallback_dict_def)
qed

theorem generate_symptom_analysis_failure_witness:
  "chatty_llm 0 [system_msg, prompt_text (initial_state ''fever'' None)] =
     Inr ''Thanks for the details. I can help with that.'' \<and>
   \<not> near_empty ''Thanks for the details. I can help with that.'' \<and>
   acknowledged ''Thanks for the details. I can help with that.'' \<and>
   chatty_llm 1 [system_msg, retry_msg (initial_state ''fever'' None)] =
     Inl (OtherError ''authentication failed'') \<and>
   generate_symptom_analysis no_json chatty_llm ''fever'' None =
     \<lparr>res_conditions =
        [''Unable to analyze symptoms. Please consult a healthcare professional.''],
      res_recommendations = [''Seek immediate medical attention if symptoms are severe.''],
      res_severity = ''Unable to assess''\<rparr>"
proof -
  have first: "chatty_llm 0 [system_msg, prompt_text (initial_state ''fever'' None)] =
                 Inr ''Thanks for the details. I can help with that.''"
    and second: "chatty_llm 1 [system_msg, retry_msg (initial_state ''fever'' None)] =
                   Inl (OtherError ''authentication failed'')"
    by (simp_all add: chatty_llm_def)
  have ack: "\<not> near_empty ''Thanks for the details. I can help with that.'' \<and>
             acknowledged ''Thanks for the details. I can help with that.''"
    by code_simp
  from first second ack
    generate_symptom_analysis_failure
      [of chatty_llm "''fever''" None "OtherError ''authentication failed''" no_json]
  show ?thesis by blast
qed

text \<open>
  The retry message is shorter than the prompt, whatever the symptoms and the context.
\<close>

lemma retry_msg_shorter: "length (retry_msg state) < length (prompt_text state)"
  by (simp add: retry_msg_def prompt_text_def)

text \<open>
  C8. The claim: a first response is non-compliant when it is empty or nearly empty, or
  when it begins with an acknowledgment phrase and lacks the marker, and every
  non-compliant response is followed by exactly one retry. An empty response is not
  retried: the node raises \<^verbatim>\<open>ValueError\<close> and falls back after its single invocation. And
  the phrase need not begin the response: \<^verbatim>\<open>Thanks for the details. I can help with that.\<close>
  starts with no phrase of the list, yet it is followed by a retry.
\<close>

theorem retry_classification_counterexample:
  "near_empty [] \<and>
   length (snd (analyze_symptoms_node no_json silent_llm fever_state)) = 1 \<and>
   analysis (fst (analyze_symptoms_node no_json silent_llm fever_state)) =
     Some fallback_analysis \<and>
   \<not> list_ex (startswith (lower ''Thanks for the details. I can help with that.''))
        acknowledgment_phrases \<and>
   length (snd (analyze_symptoms_node no_json chatty_llm fever_state)) = 2"
  by code_simp

text \<open>
  C8, as amended. When the first invocation returns a text, the node classifies it in
  this order. A text that is empty, or shorter than 10 characters once stripped, is not
  retried: the node falls back after the one invocation. Otherwise the text is retried
  exactly when one of the five acknowledgment phrases occurs anywhere in the first 200
  characters of its lowercase form and \<^verbatim>\<open>CONDITIONS:\<close> occurs nowhere in its uppercase
  form. The retry is one more invocation, with the same system message and a directive
  shorter than the prompt; its text goes to the parser unchecked. So the node invokes the
  model once or twice, never more.
\<close>

theorem analyze_symptoms_node_retry:
  assumes "llm 0 [system_msg, prompt_text state] = Inr t"
  shows "snd (analyze_symptoms_node loads llm state) =
           (if \<not> near_empty t \<and> acknowledged t
            then [[system_msg, prompt_text state], [system_msg, retry_msg state]]
            else [[system_msg, prompt_text state]]) \<and>
         length (retry_msg state) < length (prompt_text state) \<and>
         analysis (fst (analyze_symptoms_node loads llm state)) =
           Some (if near_empty t then fallback_analysis
                 else if acknowledged t then
                   (case llm 1 [system_msg, retry_msg state] of
                      Inl e \<Rightarrow> fallback_analysis
                    | Inr retry_text \<Rightarrow> parse_text_response loads retry_text)
                 else parse_text_response loads t)"
  using analyze_symptoms_try_first_returns [of llm state t loads] assms
    retry_msg_shorter [of state]
  by (simp add: analyze_symptoms_node_def split: sum.splits)

theorem analyze_symptoms_node_retry_witness:
  "acknowledging_llm 0 [system_msg, prompt_text fever_state] =
     Inr ''Okay, I understand. I will analyze the symptoms.'' \<and>
   snd (analyze_symptoms_node no_json acknowledging_llm fever_state) =
     [[system_msg, prompt_text fever_state], [system_msg, retry_msg fever_state]] \<and>
   acknowledged (''I can help with that.\<newline>Condition list:\<newline>1. Common cold\<newline>'' @
                 ''Recommendation list:\<newline>1. Rest and fluids'') \<and>
   analysis (fst (analyze_symptoms_node no_json acknowledging_llm fever_state)) =
     Some \<lparr>conditions = [''Common cold''], recommendations = [''Rest and fluids''],
           severity_assessment = ''moderate''\<rparr>"
proof -
  have first: "acknowledging_llm 0 [system_msg, prompt_text fever_state] =
                 Inr ''Okay, I understand. I will analyze the symptoms.''"
    and second: "acknowledging_llm 1 [system_msg, retry_msg fever_state] =
                   Inr (''I can help with that.\<newline>Condition list:\<newline>1. Common cold\<newline>'' @
                        ''Recommendation list:\<newline>1. Rest and fluids'')"
    by (simp_all add: acknowledging_llm_def)
  have ack: "\<not> near_empty ''Okay, I understand. I will analyze the symptoms.'' \<and>
             acknowledged ''Okay, I understand. I will analyze the symptoms.''"
    by code_simp
  have again: "acknowledged (''I can help with that.\<newline>Condition list:\<newline>1. Common cold\<newline>'' @
                             ''Recommendation list:\<newline>1. Rest and fluids'')"
    by code_simp
  have parsed: "parse_text_response no_json
                  (''I can help with that.\<newline>Condition list:\<newline>1. Common cold\<newline>'' @
                   ''Recommendation list:\<newline>1. Rest and fluids'') =
                \<lparr>conditions = [''Common cold''], recommendations = [''Rest and fluids''],
                 severity_assessment = ''moderate''\<rparr>"
    by code_simp
  from analyze_symptoms_node_retry
         [of acknowledging_llm fever_state
            "''Okay, I understand. I will analyze the symptoms.''" no_json]
       ack again parsed second first
  show ?thesis by simp
qed
end
